theory Spec2Isabelle
  imports Main
begin

section \<open>JavaScript strings and values\<close>

text \<open>
  A JavaScript string is modelled as a \<^typ>\<open>string\<close>: a list of code units, restricted to
  the code units below 256. Of these, the ones that \<^verbatim>\<open>String.prototype.trim\<close> strips
  and that the regular-expression class \<^verbatim>\<open>\s\<close> matches are TAB, LF, VT, FF, CR, SPACE
  and NBSP.
\<close>

definition isWhiteSpace :: "char \<Rightarrow> bool" where
  "isWhiteSpace c = (c \<in> set [CHR 0x09, CHR 0x0A, CHR 0x0B, CHR 0x0C, CHR 0x0D, CHR 0x20, CHR 0xA0])"

definition trim :: "string \<Rightarrow> string" where
  "trim s = rev (dropWhile isWhiteSpace (rev (dropWhile isWhiteSpace s)))"

text \<open>\<^verbatim>\<open>s.includes(t)\<close>: \<open>t\<close> occurs in \<open>s\<close> as a contiguous run.\<close>

definition startsWith :: "string \<Rightarrow> string \<Rightarrow> bool" where
  "startsWith s t = (take (length t) s = t)"

fun string_includes :: "string \<Rightarrow> string \<Rightarrow> bool" where
  "string_includes [] t = (t = [])"
| "string_includes (c # s) t = (startsWith (c # s) t \<or> string_includes s t)"

text \<open>\<^verbatim>\<open>Array.prototype.join\<close> on an array of strings.\<close>

fun join :: "string \<Rightarrow> string list \<Rightarrow> string" where
  "join sep [] = []"
| "join sep [x] = x"
| "join sep (x # y # ys) = x @ sep @ join sep (y # ys)"

text \<open>
  The decimal text of a non-negative integer, as a template literal prints
  \<^verbatim>\<open>response.status\<close>.
\<close>

definition digit :: "nat \<Rightarrow> char" where
  "digit d = char_of (48 + d)"

function numberText :: "nat \<Rightarrow> string" where
  "numberText n = (if n < 10 then [digit n] else numberText (n div 10) @ [digit (n mod 10)])"
  by pat_completeness auto
termination
  by (relation "measure id") auto

text \<open>
  The values the program handles: what \<^verbatim>\<open>JSON.parse\<close> can deliver, and
  \<^verbatim>\<open>undefined\<close> for a property that is not there. A number is carried by the two
  things the program can observe of it: its sign (truthiness, and the comparison with 0)
  and its string conversion. An object is the list of its members in document order; a
  later member with the same key overrides an earlier one.
\<close>

datatype number_sign = Negative | IsZero | Positive

datatype js_value =
    JUndefined
  | JNull
  | JBool bool
  | JNum number_sign string
  | JStr string
  | JArr "js_value list"
  | JObj "(string \<times> js_value) list"

text \<open>Truthiness, as \<^verbatim>\<open>||\<close>, \<^verbatim>\<open>&&\<close>, \<^verbatim>\<open>!\<close> and \<^verbatim>\<open>if\<close> see it.\<close>

fun truthy :: "js_value \<Rightarrow> bool" where
  "truthy JUndefined = False"
| "truthy JNull = False"
| "truthy (JBool b) = b"
| "truthy (JNum sg t) = (sg \<noteq> IsZero)"
| "truthy (JStr s) = (s \<noteq> [])"
| "truthy (JArr xs) = True"
| "truthy (JObj kvs) = True"

text \<open>\<^verbatim>\<open>a || b\<close>\<close>

definition or_else :: "js_value \<Rightarrow> js_value \<Rightarrow> js_value" where
  "or_else a b = (if truthy a then a else b)"

text \<open>
  What differs between JavaScript engines and is not modelled further: the wording of the
  \<^verbatim>\<open>TypeError\<close>s the runtime raises, and whether a string converts to a number
  above zero (\<^verbatim>\<open>ToNumber(s) > 0\<close>). Every function that depends on them takes the
  engine as a parameter.
\<close>

datatype js_fault =
    NullishRead string \<comment> \<open>reading the named property of \<^verbatim>\<open>null\<close> or \<^verbatim>\<open>undefined\<close>\<close>
  | NotCallable \<comment> \<open>calling a value that is not a function\<close>
  | NotPrimitive \<comment> \<open>converting an object that has no usable \<^verbatim>\<open>toString\<close>\<close>

record js_engine =
  typeErrorMessage :: "js_fault \<Rightarrow> string"
  stringAboveZero :: "string \<Rightarrow> bool"

record js_error =
  error_name :: string
  error_message :: string

text \<open>\<^verbatim>\<open>new Error(msg)\<close>, and a \<^verbatim>\<open>TypeError\<close> raised by the runtime.\<close>

definition Error :: "string \<Rightarrow> js_error" where
  "Error msg = \<lparr>error_name = ''Error'', error_message = msg\<rparr>"

definition TypeError :: "js_engine \<Rightarrow> js_fault \<Rightarrow> js_error" where
  "TypeError eng f = \<lparr>error_name = ''TypeError'', error_message = typeErrorMessage eng f\<rparr>"

text \<open>
  The string conversion that \<^verbatim>\<open>+\<close> with a string, \<^verbatim>\<open>join\<close> and the
  \<^verbatim>\<open>textContent\<close> setter apply. An array prints as its elements joined by commas, where
  \<^verbatim>\<open>null\<close> and \<^verbatim>\<open>undefined\<close> elements print as the empty string. A parsed JSON
  object prints as \<^verbatim>\<open>[object Object]\<close> through the inherited \<^verbatim>\<open>toString\<close>; a
  member named \<^verbatim>\<open>toString\<close> hides the inherited one, is not callable, and the
  conversion raises.
\<close>

fun ToString :: "js_engine \<Rightarrow> js_value \<Rightarrow> js_error + string"
  and elementTexts :: "js_engine \<Rightarrow> js_value list \<Rightarrow> js_error + string list" where
  "ToString eng JUndefined = Inr ''undefined''"
| "ToString eng JNull = Inr ''null''"
| "ToString eng (JBool b) = Inr (if b then ''true'' else ''false'')"
| "ToString eng (JNum sg t) = Inr t"
| "ToString eng (JStr s) = Inr s"
| "ToString eng (JArr xs) =
     (case elementTexts eng xs of Inl e \<Rightarrow> Inl e | Inr ts \<Rightarrow> Inr (join '','' ts))"
| "ToString eng (JObj kvs) =
     (if ''toString'' \<in> set (map fst kvs) then Inl (TypeError eng NotPrimitive)
      else Inr ''[object Object]'')"
| "elementTexts eng [] = Inr []"
| "elementTexts eng (x # xs) =
     (case (if x = JUndefined \<or> x = JNull then Inr [] else ToString eng x) of
        Inl e \<Rightarrow> Inl e
      | Inr t \<Rightarrow> (case elementTexts eng xs of Inl e \<Rightarrow> Inl e | Inr ts \<Rightarrow> Inr (t # ts)))"

text \<open>
  Reading a member of a parsed JSON object: the last member with that key, or
  \<^verbatim>\<open>undefined\<close>.
\<close>

definition member :: "(string \<times> js_value) list \<Rightarrow> string \<Rightarrow> js_value" where
  "member kvs k = (case map_of (rev kvs) k of None \<Rightarrow> JUndefined | Some v \<Rightarrow> v)"

text \<open>
  \<^verbatim>\<open>data.p\<close> for one of the property names the program reads off the response body
  (\<^verbatim>\<open>response\<close>, \<^verbatim>\<open>message\<close>, \<^verbatim>\<open>answer\<close>, \<^verbatim>\<open>sources\<close>): none of them
  is a property of a primitive or of an array. Reading a property of \<^verbatim>\<open>null\<close> or
  \<^verbatim>\<open>undefined\<close> raises.
\<close>

definition nullish :: "js_value \<Rightarrow> bool" where
  "nullish v = (v = JUndefined \<or> v = JNull)"

fun readProperty :: "js_value \<Rightarrow> string \<Rightarrow> js_value" where
  "readProperty (JObj kvs) p = member kvs p"
| "readProperty v p = JUndefined"

definition getProperty :: "js_engine \<Rightarrow> js_value \<Rightarrow> string \<Rightarrow> js_error + js_value" where
  "getProperty eng v p =
     (if nullish v then Inl (TypeError eng (NullishRead p)) else Inr (readProperty v p))"

text \<open>\<^verbatim>\<open>v > 0\<close>: the value is converted to a primitive, then to a number.\<close>

fun aboveZero :: "js_engine \<Rightarrow> js_value \<Rightarrow> js_error + bool" where
  "aboveZero eng JUndefined = Inr False"
| "aboveZero eng JNull = Inr False"
| "aboveZero eng (JBool b) = Inr b"
| "aboveZero eng (JNum sg t) = Inr (sg = Positive)"
| "aboveZero eng (JStr s) = Inr (stringAboveZero eng s)"
| "aboveZero eng (JArr xs) =
     (case ToString eng (JArr xs) of Inl e \<Rightarrow> Inl e | Inr t \<Rightarrow> Inr (stringAboveZero eng t))"
| "aboveZero eng (JObj kvs) =
     (case ToString eng (JObj kvs) of Inl e \<Rightarrow> Inl e | Inr t \<Rightarrow> Inr False)"

text \<open>\<^verbatim>\<open>v.length > 0\<close> for a truthy \<open>v\<close>.\<close>

fun lengthAboveZero :: "js_engine \<Rightarrow> js_value \<Rightarrow> js_error + bool" where
  "lengthAboveZero eng (JArr xs) = Inr (0 < length xs)"
| "lengthAboveZero eng (JStr s) = Inr (0 < length s)"
| "lengthAboveZero eng (JObj kvs) = aboveZero eng (member kvs ''length'')"
| "lengthAboveZero eng v = Inr False"

text \<open>
  \<^verbatim>\<open>v.join(sep)\<close>: only an array has a callable \<^verbatim>\<open>join\<close>; a member of a parsed
  object is never a function.
\<close>

fun callJoin :: "js_engine \<Rightarrow> js_value \<Rightarrow> string \<Rightarrow> js_error + string" where
  "callJoin eng (JArr xs) sep =
     (case elementTexts eng xs of Inl e \<Rightarrow> Inl e | Inr ts \<Rightarrow> Inr (join sep ts))"
| "callJoin eng JUndefined sep = Inl (TypeError eng (NullishRead ''join''))"
| "callJoin eng JNull sep = Inl (TypeError eng (NullishRead ''join''))"
| "callJoin eng v sep = Inl (TypeError eng NotCallable)"

text \<open>
  \<^verbatim>\<open>obj[key]\<close> on one of the program's two object literals. Besides its own
  properties an object literal has the ones it inherits from \<^verbatim>\<open>Object.prototype\<close>;
  every one of them is truthy, and none has a property \<^verbatim>\<open>welcomeMessage\<close>.
\<close>

datatype 'a property = Own 'a | Inherited | Absent

definition objectPrototypeKeys :: "string list" where
  "objectPrototypeKeys =
     [''constructor'', ''hasOwnProperty'', ''isPrototypeOf'', ''propertyIsEnumerable'',
      ''toLocaleString'', ''toString'', ''valueOf'', ''__proto__'',
      ''__defineGetter__'', ''__defineSetter__'', ''__lookupGetter__'', ''__lookupSetter__'']"

definition lookup :: "(string \<times> 'a) list \<Rightarrow> string \<Rightarrow> 'a property" where
  "lookup obj k =
     (case map_of obj k of
        Some v \<Rightarrow> Own v
      | None \<Rightarrow> if k \<in> set objectPrototypeKeys then Inherited else Absent)"

section \<open>Configuration\<close>

record api_config =
  baseUrl :: string
  endpoint :: string
  http_method :: string

definition timesheetConfig :: api_config where
  "timesheetConfig =
     \<lparr>baseUrl = ''http://localhost:8000'', endpoint = ''/chat'', http_method = ''POST''\<rparr>"

definition hrPolicyConfig :: api_config where
  "hrPolicyConfig =
     \<lparr>baseUrl = ''http://localhost:8001'', endpoint = ''/query'', http_method = ''POST''\<rparr>"

definition API_CONFIG :: "(string \<times> api_config) list" where
  "API_CONFIG = [(''timesheet'', timesheetConfig), (''hr-policy'', hrPolicyConfig)]"

text \<open>The \<^verbatim>\<open>icon\<close> of a service, an emoji shown on the badge, is left out.\<close>

record service =
  service_name :: string
  description :: string
  welcomeMessage :: string

definition timesheetService :: service where
  "timesheetService =
     \<lparr>service_name = ''Timesheet Management'',
      description = ''your Oracle and Mars timesheets'',
      welcomeMessage = ''Hello! I'' @ [CHR 0x27] @ ''m your Timesheet Management assistant. I can help you fill timesheets, view entries, and manage your Oracle and Mars timesheet data. How can I assist you today?''\<rparr>"

definition hrPolicyService :: service where
  "hrPolicyService =
     \<lparr>service_name = ''HR Policy Assistant'',
      description = ''HR policies and company documents'',
      welcomeMessage = ''Hello! I'' @ [CHR 0x27] @ ''m your HR Policy Assistant. I can help you understand company policies, HR procedures, and answer questions about employee documentation. How can I help you today?''\<rparr>"

definition SERVICES :: "(string \<times> service) list" where
  "SERVICES = [(''timesheet'', timesheetService), (''hr-policy'', hrPolicyService)]"

section \<open>Application state\<close>

text \<open>
  An entry of \<^verbatim>\<open>appState.conversationHistory\<close>, and a message element of the rendered
  transcript (its class name and its text).
\<close>

record turn =
  role :: string
  content :: js_value

record message_div =
  className :: string
  textContent :: string

text \<open>The lines written with \<^verbatim>\<open>console.error\<close>.\<close>

datatype console_line =
    ErrorLine string \<comment> \<open>\<^verbatim>\<open>console.error('Error:', message)\<close> in \<^verbatim>\<open>showError\<close>\<close>
  | ApiErrorLine js_error \<comment> \<open>\<^verbatim>\<open>console.error('API Error:', error)\<close>\<close>
  | FetchErrorLine js_error \<comment> \<open>\<^verbatim>\<open>console.error('Fetch Error:', fetchError)\<close>\<close>

text \<open>
  The five fields of \<^verbatim>\<open>appState\<close>, and what the program reads and writes of the page:
  the value of the email input, the value of the message input and the children of the
  messages container, each \<open>None\<close> when the page has no such element
  (\<^verbatim>\<open>getElementById\<close> gave \<^verbatim>\<open>null\<close>), and the error console. \<^verbatim>\<open>showError\<close> is
  observed by the line it writes to the console. Effects that only style the page
  (class toggles, focus, scrolling, the textarea height, the labels of the chat header, the
  timer that hides the error toast) and \<^verbatim>\<open>console.log\<close> are left out.
\<close>

record app =
  selectedService :: "string option"
  userEmail :: string
  conversationHistory :: "turn list"
  isLoading :: bool
  initialized :: bool
  emailInput :: "string option"
  messageInput :: "string option"
  messagesContainer :: "message_div list option"
  console :: "console_line list"

section \<open>Email validation and service selection\<close>

text \<open>
  \<^verbatim>\<open>/^[^\s@]+@[^\s@]+\.[^\s@]+$/.test(email)\<close>. The class \<^verbatim>\<open>[^\s@]\<close> excludes
  \<^verbatim>\<open>@\<close>, so the first \<^verbatim>\<open>@\<close> of the string is the one the pattern names: before it
  comes a non-empty run of class characters, after it only class characters, with a dot
  that is neither the first nor the last of them.
\<close>

definition emailChar :: "char \<Rightarrow> bool" where
  "emailChar c = (\<not> isWhiteSpace c \<and> c \<noteq> CHR ''@'')"

definition emailRegex_test :: "string \<Rightarrow> bool" where
  "emailRegex_test email =
     (takeWhile emailChar email \<noteq> [] \<and>
      (case dropWhile emailChar email of
         [] \<Rightarrow> False
       | c # domain \<Rightarrow>
           c = CHR ''@'' \<and> list_all emailChar domain \<and> CHR ''.'' \<in> set (butlast (tl domain))))"

definition validateEmail :: "app \<Rightarrow> bool" where
  "validateEmail s =
     emailRegex_test (case emailInput s of None \<Rightarrow> [] | Some v \<Rightarrow> trim v)"

definition showError :: "string \<Rightarrow> app \<Rightarrow> app" where
  "showError msg s = s\<lparr>console := console s @ [ErrorLine msg]\<rparr>"

definition showTyping :: "bool \<Rightarrow> app \<Rightarrow> app" where
  "showTyping show s = s\<lparr>isLoading := show\<rparr>"

text \<open>
  \<^verbatim>\<open>addMessage(role, content)\<close> returns at once when there is no messages container or
  the content is falsy; otherwise it appends an element whose text is the content. The
  first definition is the call with a string; the second is the call with any value, where
  setting \<^verbatim>\<open>textContent\<close> converts the value to a string, which can raise.
\<close>

definition addMessage_text :: "string \<Rightarrow> string \<Rightarrow> app \<Rightarrow> app" where
  "addMessage_text r text s =
     (case messagesContainer s of
        None \<Rightarrow> s
      | Some divs \<Rightarrow>
          if text = [] then s
          else s\<lparr>messagesContainer :=
                   Some (divs @ [\<lparr>className = ''message '' @ r, textContent = text\<rparr>])\<rparr>)"

definition addMessage :: "js_engine \<Rightarrow> string \<Rightarrow> js_value \<Rightarrow> app \<Rightarrow> js_error + app" where
  "addMessage eng r c s =
     (case messagesContainer s of
        None \<Rightarrow> Inr s
      | Some divs \<Rightarrow>
          if \<not> truthy c then Inr s
          else (case ToString eng c of
                  Inl e \<Rightarrow> Inl e
                | Inr text \<Rightarrow>
                    Inr (s\<lparr>messagesContainer :=
                             Some (divs @ [\<lparr>className = ''message '' @ r, textContent = text\<rparr>])\<rparr>)))"

text \<open>\<^verbatim>\<open>elements.messagesContainer.innerHTML = ''\<close>, when the element is there.\<close>

definition clearMessages :: "app \<Rightarrow> app" where
  "clearMessages s = s\<lparr>messagesContainer := map_option (\<lambda>divs. []) (messagesContainer s)\<rparr>"

text \<open>
  \<^verbatim>\<open>selectService(serviceType)\<close>. The email is the trimmed value of the email input. The
  state is written before the service is looked up. For a key that \<^verbatim>\<open>SERVICES\<close> only
  inherits, the lookup is truthy and its \<^verbatim>\<open>welcomeMessage\<close> is \<^verbatim>\<open>undefined\<close>, so
  \<^verbatim>\<open>addMessage\<close> returns at once.
\<close>

definition selectService :: "string \<Rightarrow> app \<Rightarrow> app" where
  "selectService serviceType s =
     (case map_option trim (emailInput s) of
        None \<Rightarrow> showError ''Please enter a valid email address first.'' s
      | Some email \<Rightarrow>
          if \<not> validateEmail s \<or> email = []
          then showError ''Please enter a valid email address first.'' s
          else
            let s1 = s\<lparr>selectedService := Some serviceType, userEmail := email,
                       conversationHistory := [], initialized := True\<rparr>
            in (case lookup SERVICES serviceType of
                  Absent \<Rightarrow> showError ''Invalid service selected.'' s1
                | Inherited \<Rightarrow> clearMessages s1
                | Own service \<Rightarrow>
                    addMessage_text ''assistant'' (welcomeMessage service) (clearMessages s1)))"

text \<open>\<^verbatim>\<open>resetToWelcome()\<close>\<close>

definition resetToWelcome :: "app \<Rightarrow> app" where
  "resetToWelcome s =
     showTyping False
       (s\<lparr>selectedService := None, userEmail := [], conversationHistory := [],
          isLoading := False, initialized := False,
          emailInput := map_option (\<lambda>v. []) (emailInput s),
          messagesContainer := map_option (\<lambda>divs. []) (messagesContainer s),
          messageInput := map_option (\<lambda>v. []) (messageInput s)\<rparr>)"

section \<open>The message pipeline\<close>

text \<open>
  \<^verbatim>\<open>sendMessage\<close> is asynchronous: it runs up to the \<^verbatim>\<open>fetch\<close> inside
  \<^verbatim>\<open>callAPI\<close>, is suspended while the request is in flight, and is resumed with the
  outcome. The model has one function for each stretch. What a suspended call keeps in its
  local variables is the trimmed message and the \<^verbatim>\<open>serviceConfig\<close>; the request it
  issued is kept with them.
\<close>

record request =
  url :: string
  verb :: string
  payload :: "(string \<times> string) list"

record pending_call =
  call_message :: string
  call_config :: api_config
  call_request :: request

text \<open>
  How the request ends: \<^verbatim>\<open>fetch\<close> rejects with an error, or it delivers a response
  with a status, whose \<^verbatim>\<open>json()\<close> either rejects (the body is not JSON) or delivers the
  parsed body.
\<close>

datatype fetch_outcome =
    FetchRejected js_error
  | FetchResponse nat "js_error + js_value"

text \<open>
  \<^verbatim>\<open>callAPI\<close> up to the \<^verbatim>\<open>fetch\<close>. The property key of
  \<^verbatim>\<open>API_CONFIG[appState.selectedService]\<close> is the string \<^verbatim>\<open>null\<close> when no service
  is selected. A key that \<^verbatim>\<open>API_CONFIG\<close> only inherits gives a truthy configuration,
  and is neither of the two service names.
\<close>

definition propertyKey :: "string option \<Rightarrow> string" where
  "propertyKey k = (case k of None \<Rightarrow> ''null'' | Some t \<Rightarrow> t)"

definition buildRequest :: "api_config \<Rightarrow> (string \<times> string) list \<Rightarrow> request" where
  "buildRequest cfg body =
     \<lparr>url = baseUrl cfg @ endpoint cfg, verb = http_method cfg, payload = body\<rparr>"

definition callAPI_begin :: "string \<Rightarrow> app \<Rightarrow> js_error + pending_call" where
  "callAPI_begin msg s =
     (case lookup API_CONFIG (propertyKey (selectedService s)) of
        Absent \<Rightarrow> Inl (Error ''Invalid service configuration'')
      | Inherited \<Rightarrow> Inl (Error ''Unknown service type'')
      | Own cfg \<Rightarrow>
          if selectedService s = Some ''timesheet''
          then Inr \<lparr>call_message = msg, call_config = cfg,
                    call_request =
                      buildRequest cfg [(''email'', userEmail s), (''user_prompt'', msg)]\<rparr>
          else if selectedService s = Some ''hr-policy''
          then Inr \<lparr>call_message = msg, call_config = cfg,
                    call_request = buildRequest cfg [(''question'', msg)]\<rparr>
          else Inl (Error ''Unknown service type''))"

text \<open>\<^verbatim>\<open>response.ok\<close>\<close>

definition response_ok :: "nat \<Rightarrow> bool" where
  "response_ok status = (200 \<le> status \<and> status \<le> 299)"

text \<open>The error thrown for a response that is not \<^verbatim>\<open>ok\<close>.\<close>

definition statusError :: "api_config \<Rightarrow> nat \<Rightarrow> js_error" where
  "statusError cfg status =
     (if status = 405
      then Error (''Method not allowed (405). Check if '' @ endpoint cfg @ '' accepts '' @
                  http_method cfg @ '' requests.'')
      else if status = 404
      then Error (''Endpoint not found (404). Check if '' @ endpoint cfg @ '' exists.'')
      else if status \<ge> 500
      then Error (''Server error ('' @ numberText status @ ''). The API server may be down.'')
      else Error (''HTTP error! status: '' @ numberText status))"

definition fallbackText :: string where
  "fallbackText = ''Response received successfully.''"

text \<open>
  The text of a response body, by the service selected when the body arrives:
  \<^verbatim>\<open>data.response || data.message || '...'\<close> for the timesheet service; for the HR
  policy service \<^verbatim>\<open>data.answer || data.response || data.message\<close>, to which the sources
  are appended with \<^verbatim>\<open>+=\<close> when \<^verbatim>\<open>data.sources && data.sources.length > 0\<close>, and
  then \<^verbatim>\<open>answer || '...'\<close>.
\<close>

definition timesheetText :: "js_engine \<Rightarrow> js_value \<Rightarrow> js_error + js_value" where
  "timesheetText eng data =
     (case getProperty eng data ''response'' of
        Inl e \<Rightarrow> Inl e
      | Inr r \<Rightarrow>
          Inr (or_else (or_else r (readProperty data ''message'')) (JStr fallbackText)))"

definition appendSources :: "js_engine \<Rightarrow> js_value \<Rightarrow> js_value \<Rightarrow> js_error + js_value" where
  "appendSources eng answer sources =
     (case callJoin eng sources '', '' of
        Inl e \<Rightarrow> Inl e
      | Inr joined \<Rightarrow>
          (case ToString eng answer of
             Inl e \<Rightarrow> Inl e
           | Inr text \<Rightarrow> Inr (JStr (text @ [CHR 0x0A, CHR 0x0A] @ ''Sources: '' @ joined))))"

definition hrPolicyText :: "js_engine \<Rightarrow> js_value \<Rightarrow> js_error + js_value" where
  "hrPolicyText eng data =
     (case getProperty eng data ''answer'' of
        Inl e \<Rightarrow> Inl e
      | Inr a \<Rightarrow>
          let answer = or_else (or_else a (readProperty data ''response''))
                         (readProperty data ''message'');
              sources = readProperty data ''sources''
          in if \<not> truthy sources then Inr (or_else answer (JStr fallbackText))
             else (case lengthAboveZero eng sources of
                     Inl e \<Rightarrow> Inl e
                   | Inr nonempty \<Rightarrow>
                       if \<not> nonempty then Inr (or_else answer (JStr fallbackText))
                       else (case appendSources eng answer sources of
                               Inl e \<Rightarrow> Inl e
                             | Inr answer' \<Rightarrow> Inr (or_else answer' (JStr fallbackText)))))"

text \<open>
  The \<^verbatim>\<open>try\<close> block of \<^verbatim>\<open>callAPI\<close> from the point where \<^verbatim>\<open>fetch\<close> settles:
  the status check, the body, and the text by the service that is selected at that time.
\<close>

definition responseText :: "js_engine \<Rightarrow> string option \<Rightarrow> js_value \<Rightarrow> js_error + js_value" where
  "responseText eng selected data =
     (if selected = Some ''timesheet'' then timesheetText eng data
      else if selected = Some ''hr-policy'' then hrPolicyText eng data
      else Inr (JStr fallbackText))"

definition callAPI_try ::
  "js_engine \<Rightarrow> api_config \<Rightarrow> fetch_outcome \<Rightarrow> string option \<Rightarrow> js_error + js_value" where
  "callAPI_try eng cfg outcome selected =
     (case outcome of
        FetchRejected e \<Rightarrow> Inl e
      | FetchResponse status body \<Rightarrow>
          if \<not> response_ok status then Inl (statusError cfg status)
          else (case body of
                  Inl e \<Rightarrow> Inl e
                | Inr data \<Rightarrow> responseText eng selected data))"

text \<open>
  The \<^verbatim>\<open>catch (fetchError)\<close> of \<^verbatim>\<open>callAPI\<close>: the error is logged, a
  \<^verbatim>\<open>TypeError\<close> whose message is exactly \<^verbatim>\<open>Failed to fetch\<close> is replaced, any other
  error is thrown again.
\<close>

definition callAPI_catch :: "js_error \<Rightarrow> js_error" where
  "callAPI_catch fetchError =
     (if error_name fetchError = ''TypeError'' \<and> error_message fetchError = ''Failed to fetch''
      then Error ''Cannot connect to API server. Please ensure it is running and accessible.''
      else fetchError)"

definition callAPI_resume ::
  "js_engine \<Rightarrow> api_config \<Rightarrow> fetch_outcome \<Rightarrow> app \<Rightarrow> (js_error + js_value) \<times> app" where
  "callAPI_resume eng cfg outcome s =
     (case callAPI_try eng cfg outcome (selectedService s) of
        Inl fetchError \<Rightarrow>
          (Inl (callAPI_catch fetchError), s\<lparr>console := console s @ [FetchErrorLine fetchError]\<rparr>)
      | Inr text \<Rightarrow> (Inr text, s))"

text \<open>
  The \<^verbatim>\<open>catch (error)\<close> and \<^verbatim>\<open>finally\<close> of \<^verbatim>\<open>sendMessage\<close>: the message shown
  is chosen by what the error's message contains.
\<close>

definition errorMsg :: "js_error \<Rightarrow> string" where
  "errorMsg error =
     (if string_includes (error_message error) ''CORS'' \<or>
         string_includes (error_message error) ''OPTIONS''
      then ''Connection issue - please ensure the API server is running and CORS is configured.''
      else if string_includes (error_message error) ''405''
      then ''Method not allowed - please check the API endpoint configuration.''
      else if string_includes (error_message error) ''Failed to fetch''
      then ''Cannot connect to API server. Please ensure it is running.''
      else ''Sorry, I encountered an error. Please try again.'')"

definition apologyText :: string where
  "apologyText =
     ''I apologize, but I encountered an error processing your request. Please try again.''"

definition sendMessage_catch :: "js_error \<Rightarrow> app \<Rightarrow> app" where
  "sendMessage_catch error s =
     showTyping False
       (addMessage_text ''assistant'' apologyText
          (showError (errorMsg error) (s\<lparr>console := console s @ [ApiErrorLine error]\<rparr>)))"

text \<open>
  \<^verbatim>\<open>sendMessage\<close> up to the suspension. It returns at once when the trimmed message is
  empty (or there is no message input), a request is loading, or no service was selected.
  When \<^verbatim>\<open>callAPI\<close> throws before the \<^verbatim>\<open>fetch\<close>, no request is issued and the
  \<^verbatim>\<open>catch\<close> and \<^verbatim>\<open>finally\<close> run.
\<close>

definition sendMessage_begin :: "app \<Rightarrow> app \<times> pending_call option" where
  "sendMessage_begin s =
     (case map_option trim (messageInput s) of
        None \<Rightarrow> (s, None)
      | Some msg \<Rightarrow>
          if msg = [] \<or> isLoading s \<or> \<not> initialized s then (s, None)
          else
            let s1 = showTyping True (addMessage_text ''user'' msg (s\<lparr>messageInput := Some []\<rparr>))
            in (case callAPI_begin msg s1 of
                  Inl error \<Rightarrow> (sendMessage_catch error s1, None)
                | Inr call \<Rightarrow> (s1, Some call)))"

text \<open>
  \<^verbatim>\<open>sendMessage\<close> from the resumption: the rest of \<^verbatim>\<open>callAPI\<close>, then the assistant
  message and the two entries pushed to the history, or the \<^verbatim>\<open>catch\<close>; the
  \<^verbatim>\<open>finally\<close> in both cases.
\<close>

definition sendMessage_resume :: "js_engine \<Rightarrow> pending_call \<Rightarrow> fetch_outcome \<Rightarrow> app \<Rightarrow> app" where
  "sendMessage_resume eng call outcome s =
     (case callAPI_resume eng (call_config call) outcome s of
        (Inl error, s1) \<Rightarrow> sendMessage_catch error s1
      | (Inr response, s1) \<Rightarrow>
          (case addMessage eng ''assistant'' response s1 of
             Inl error \<Rightarrow> sendMessage_catch error s1
           | Inr s2 \<Rightarrow>
               showTyping False
                 (s2\<lparr>conversationHistory := conversationHistory s2 @
                        [\<lparr>role = ''user'', content = JStr (call_message call)\<rparr>,
                         \<lparr>role = ''assistant'', content = response\<rparr>]\<rparr>)))"

text \<open>
  One call of \<^verbatim>\<open>sendMessage\<close> run to its end with nothing else happening while the
  request is in flight.
\<close>

definition sendMessage :: "js_engine \<Rightarrow> fetch_outcome \<Rightarrow> app \<Rightarrow> app" where
  "sendMessage eng outcome s =
     (case sendMessage_begin s of
        (s1, None) \<Rightarrow> s1
      | (s1, Some call) \<Rightarrow> sendMessage_resume eng call outcome s1)"

text \<open>
  The value with which the promise of \<^verbatim>\<open>sendMessage\<close> resolves. The guard leaves with
  a bare \<^verbatim>\<open>return;\<close>, and after the \<^verbatim>\<open>try\<close>, \<^verbatim>\<open>catch\<close> and \<^verbatim>\<open>finally\<close> the
  body ends without a \<^verbatim>\<open>return\<close> statement: on either exit the value is
  \<^verbatim>\<open>undefined\<close>.
\<close>

definition sendMessage_returns :: "js_engine \<Rightarrow> fetch_outcome \<Rightarrow> app \<Rightarrow> js_value" where
  "sendMessage_returns eng outcome s =
     (case sendMessage_begin s of
        (s1, None) \<Rightarrow> JUndefined
      | (s1, Some call) \<Rightarrow> JUndefined)"

section \<open>Executions\<close>

text \<open>
  The program is driven by events, one at a time: the user edits an input, picks a
  service, sends (the send button, or Enter in the message input), resets (the reset
  button, or Escape once a service was selected), the browser goes offline, or a request
  that is in flight settles and the suspended \<^verbatim>\<open>sendMessage\<close> resumes. Nothing cancels
  a request: it stays in flight until it settles, and requests may settle in any order.
  The state of an execution is the application state and the suspended calls; each is
  tagged with the number of the session in which it was issued, where a new session
  starts at every reset and at every call of \<^verbatim>\<open>selectService\<close> that passes the email
  check. The tags are bookkeeping of the model: no function of the program reads them.
\<close>

record execution =
  app_state :: app
  inflight :: "(nat \<times> pending_call) list"
  session :: nat

datatype event =
    TypeEmail string
  | TypeMessage string
  | SelectService string
  | SendMessage
  | Settle nat fetch_outcome
  | ResetToWelcome
  | GoOffline

fun step :: "js_engine \<Rightarrow> event \<Rightarrow> execution \<Rightarrow> execution" where
  "step eng (TypeEmail v) x =
     x\<lparr>app_state := (app_state x)\<lparr>emailInput := map_option (\<lambda>old. v) (emailInput (app_state x))\<rparr>\<rparr>"
| "step eng (TypeMessage v) x =
     x\<lparr>app_state :=
         (app_state x)\<lparr>messageInput := map_option (\<lambda>old. v) (messageInput (app_state x))\<rparr>\<rparr>"
| "step eng (SelectService serviceType) x =
     x\<lparr>app_state := selectService serviceType (app_state x),
       session := (if validateEmail (app_state x) then Suc (session x) else session x)\<rparr>"
| "step eng SendMessage x =
     (case sendMessage_begin (app_state x) of
        (s, None) \<Rightarrow> x\<lparr>app_state := s\<rparr>
      | (s, Some call) \<Rightarrow> x\<lparr>app_state := s, inflight := inflight x @ [(session x, call)]\<rparr>)"
| "step eng (Settle i outcome) x =
     (if i < length (inflight x)
      then x\<lparr>app_state := sendMessage_resume eng (snd (inflight x ! i)) outcome (app_state x),
             inflight := take i (inflight x) @ drop (Suc i) (inflight x)\<rparr>
      else x)"
| "step eng ResetToWelcome x =
     x\<lparr>app_state := resetToWelcome (app_state x), session := Suc (session x)\<rparr>"
| "step eng GoOffline x =
     x\<lparr>app_state :=
         showError ''You are currently offline. Please check your internet connection.''
           (app_state x)\<rparr>"

definition run :: "js_engine \<Rightarrow> event list \<Rightarrow> execution \<Rightarrow> execution" where
  "run eng events x = foldl (\<lambda>y ev. step eng ev y) x events"

text \<open>
  The state when the page has loaded: the \<^verbatim>\<open>appState\<close> literal, the elements that the
  page has (the three flags), and the \<^verbatim>\<open>resetToWelcome()\<close> of the
  \<^verbatim>\<open>DOMContentLoaded\<close> handler.
\<close>

definition startup :: "bool \<Rightarrow> bool \<Rightarrow> bool \<Rightarrow> execution" where
  "startup hasEmailInput hasMessageInput hasMessagesContainer =
     \<lparr>app_state =
        resetToWelcome
          \<lparr>selectedService = None, userEmail = [], conversationHistory = [],
           isLoading = False, initialized = False,
           emailInput = (if hasEmailInput then Some [] else None),
           messageInput = (if hasMessageInput then Some [] else None),
           messagesContainer = (if hasMessagesContainer then Some [] else None),
           console = []\<rparr>,
      inflight = [], session = 0\<rparr>"

text \<open>
  An engine to evaluate examples with; none of the examples below depends on what it
  answers.
\<close>

definition sampleEngine :: js_engine where
  "sampleEngine = \<lparr>typeErrorMessage = (\<lambda>f. ''TypeError''), stringAboveZero = (\<lambda>t. False)\<rparr>"

section \<open>Notions used by the properties\<close>

text \<open>
  The session state of the specification is read off \<^verbatim>\<open>appState\<close>: the active service
  is \<open>selectedService\<close>, the user identifier is \<open>userEmail\<close>, the history is
  \<open>conversationHistory\<close> and pending is \<open>isLoading\<close>. The functions of the program return
  nothing: what an operation reports is what it hands to the page, an error through
  \<^verbatim>\<open>showError\<close> and a turn through \<^verbatim>\<open>addMessage\<close>.

  A history made of (user, assistant) pairs:
\<close>

fun paired :: "turn list \<Rightarrow> bool" where
  "paired [] = True"
| "paired [t] = False"
| "paired (u # a # rest) = (role u = ''user'' \<and> role a = ''assistant'' \<and> paired rest)"

text \<open>At most one request is in flight, and while one is, the loading flag is set.\<close>

definition oneInFlight :: "execution \<Rightarrow> bool" where
  "oneInFlight x = (length (inflight x) \<le> 1 \<and> (inflight x = [] \<or> isLoading (app_state x)))"

text \<open>
  A state to evaluate examples in: the timesheet service is active, one exchange is in the
  history, the email input holds a valid address and the message input the text
  \<^verbatim>\<open>hi\<close>.
\<close>

definition activeSession :: app where
  "activeSession =
     \<lparr>selectedService = Some ''timesheet'', userEmail = ''u@x.org'',
      conversationHistory =
        [\<lparr>role = ''user'', content = JStr ''q''\<rparr>,
         \<lparr>role = ''assistant'', content = JStr ''r''\<rparr>],
      isLoading = False, initialized = True,
      emailInput = Some ''a@b.co'', messageInput = Some ''hi'',
      messagesContainer =
        Some [\<lparr>className = ''message user'', textContent = ''q''\<rparr>,
              \<lparr>className = ''message assistant'', textContent = ''r''\<rparr>],
      console = []\<rparr>"

text \<open>
  An execution in which a request is still in flight when the user resets: the first
  request is sent, the user resets and selects the service again, sends a second request,
  the first request settles, and a third request is sent while the second is in flight.
\<close>

definition okBody :: js_value where
  "okBody = JObj [(''response'', JStr ''ok'')]"

definition staleEvents :: "event list" where
  "staleEvents =
     [TypeEmail ''a@b.co'', SelectService ''timesheet'', TypeMessage ''one'', SendMessage,
      ResetToWelcome,
      TypeEmail ''a@b.co'', SelectService ''timesheet'', TypeMessage ''two'', SendMessage,
      Settle 0 (FetchResponse 200 (Inr okBody)),
      TypeMessage ''three'', SendMessage]"


text \<open>The active session with the HR policy service selected.\<close>

definition hrSession :: app where
  "hrSession = activeSession\<lparr>selectedService := Some ''hr-policy''\<rparr>"


text \<open>A turn as the object that the history holds.\<close>

definition turnObject :: "turn \<Rightarrow> js_value" where
  "turnObject t = JObj [(''role'', JStr (role t)), (''content'', content t)]"

text \<open>Every reset of an execution is made while no request is in flight.\<close>

fun resetsWhenIdle :: "js_engine \<Rightarrow> event list \<Rightarrow> execution \<Rightarrow> bool" where
  "resetsWhenIdle eng [] x = True"
| "resetsWhenIdle eng (ev # events) x =
     ((ev = ResetToWelcome \<longrightarrow> inflight x = []) \<and> resetsWhenIdle eng events (step eng ev x))"

text \<open>
  An execution with such a reset: a request is sent and answered, the user resets,
  selects the service again and sends a second request.
\<close>

definition idleResetEvents :: "event list" where
  "idleResetEvents =
     [TypeEmail ''a@b.co'', SelectService ''timesheet'', TypeMessage ''one'', SendMessage,
      Settle 0 (FetchResponse 200 (Inr okBody)),
      ResetToWelcome,
      TypeEmail ''a@b.co'', SelectService ''timesheet'', TypeMessage ''two'', SendMessage]"

text \<open>
  An execution in which the answer arrives after the reset: the request is sent, the user
  resets, and the request settles on the welcome screen, where the email input is empty.
\<close>

definition lateAnswerEvents :: "event list" where
  "lateAnswerEvents =
     [TypeEmail ''a@b.co'', SelectService ''timesheet'', TypeMessage ''one'', SendMessage,
      ResetToWelcome,
      Settle 0 (FetchResponse 200 (Inr okBody))]"



section \<open>Email validation and service selection: properties\<close>

lemma trim_examples:
  "trim ''a@b.co'' = ''a@b.co''" "trim ''a@b'' = ''a@b''" "trim ''hi'' = ''hi''"
  "trim ''not-an-email'' = ''not-an-email''" "trim [] = []"
  by (simp_all add: trim_def isWhiteSpace_def)

lemma emailRegex_accepts: "emailRegex_test ''a@b.co''"
  by (simp add: emailRegex_test_def emailChar_def isWhiteSpace_def)

lemma emailRegex_rejects:
  "\<not> emailRegex_test ''not-an-email''" "\<not> emailRegex_test []" "\<not> emailRegex_test ''a@b''"
  by (simp_all add: emailRegex_test_def emailChar_def isWhiteSpace_def)

lemma emailRegex_nonempty: "emailRegex_test email \<Longrightarrow> email \<noteq> []"
  by (auto simp: emailRegex_test_def)

lemma services_cases:
  "map_of SERVICES k = Some service \<Longrightarrow>
     (k = ''timesheet'' \<and> service = timesheetService) \<or>
     (k = ''hr-policy'' \<and> service = hrPolicyService)"
  by (auto simp: SERVICES_def split: if_splits)

lemma welcome_nonempty: "map_of SERVICES k = Some service \<Longrightarrow> welcomeMessage service \<noteq> []"
  by (auto simp: timesheetService_def hrPolicyService_def dest!: services_cases)

lemma validateEmail_activeSession: "validateEmail activeSession"
  by (simp add: validateEmail_def activeSession_def trim_examples emailRegex_accepts)

text \<open>
  C9. When the trimmed value of the email input fails the email pattern (or the page has
  no email input), \<^verbatim>\<open>selectService\<close> reports the invalid-email error and changes
  nothing else: the selected service, the user email, the history, the loading flag and
  every other field are as before, for every service type. The three addresses
  \<^verbatim>\<open>not-an-email\<close>, the empty string and \<^verbatim>\<open>a@b\<close> fail the pattern.
\<close>

theorem selectService_invalid_email:
  "(\<not> validateEmail s \<longrightarrow>
      selectService serviceType s =
        s\<lparr>console := console s @ [ErrorLine ''Please enter a valid email address first.'']\<rparr>) \<and>
   (email \<in> set [''not-an-email'', [], ''a@b''] \<longrightarrow>
      \<not> validateEmail (s\<lparr>emailInput := Some email\<rparr>))"
proof (intro conjI impI)
  assume "\<not> validateEmail s"
  then show "selectService serviceType s =
        s\<lparr>console := console s @ [ErrorLine ''Please enter a valid email address first.'']\<rparr>"
    by (simp add: selectService_def showError_def split: option.splits)
next
  assume "email \<in> set [''not-an-email'', [], ''a@b'']"
  then show "\<not> validateEmail (s\<lparr>emailInput := Some email\<rparr>)"
    by (auto simp: validateEmail_def trim_examples emailRegex_rejects)
qed

theorem selectService_invalid_email_witness:
  "\<not> validateEmail (activeSession\<lparr>emailInput := Some ''a@b''\<rparr>) \<and>
   selectService ''timesheet'' (activeSession\<lparr>emailInput := Some ''a@b''\<rparr>) =
     activeSession\<lparr>emailInput := Some ''a@b'',
       console := [ErrorLine ''Please enter a valid email address first.'']\<rparr>"
proof -
  have n: "\<not> validateEmail (activeSession\<lparr>emailInput := Some ''a@b''\<rparr>)"
    using selectService_invalid_email[of activeSession "''timesheet''" "''a@b''"] by simp
  then show ?thesis
    using selectService_invalid_email[of "activeSession\<lparr>emailInput := Some ''a@b''\<rparr>"
        "''timesheet''" "''a@b''"]
    by (simp add: activeSession_def)
qed

text \<open>
  C1, as the program has it. For every service type of the registry and every email input
  whose trimmed value passes the pattern, \<^verbatim>\<open>selectService\<close> makes that service the
  selected one, stores the trimmed email, marks the application initialized and empties
  the history, which stays empty: the welcome text is not recorded in it. When the page
  has a messages container, its former content is removed and the welcome text of the
  service is rendered as its only message, an assistant message. Nothing else changes.
\<close>

theorem selectService_valid:
  assumes "map_of SERVICES serviceType = Some service"
    and "emailInput s = Some v" and "emailRegex_test (trim v)"
  shows "selectService serviceType s =
           s\<lparr>selectedService := Some serviceType, userEmail := trim v,
             conversationHistory := [], initialized := True,
             messagesContainer :=
               map_option (\<lambda>divs. [\<lparr>className = ''message assistant'',
                                      textContent = welcomeMessage service\<rparr>])
                 (messagesContainer s)\<rparr>"
  using assms welcome_nonempty[OF assms(1)] emailRegex_nonempty[OF assms(3)]
  by (cases "messagesContainer s")
     (simp_all add: selectService_def validateEmail_def lookup_def clearMessages_def
        addMessage_text_def)

theorem selectService_valid_witness:
  "map_of SERVICES ''timesheet'' = Some timesheetService \<and>
   emailInput activeSession = Some ''a@b.co'' \<and> emailRegex_test (trim ''a@b.co'') \<and>
   selectService ''timesheet'' activeSession =
     activeSession\<lparr>userEmail := ''a@b.co'', conversationHistory := [],
       messagesContainer :=
         Some [\<lparr>className = ''message assistant'',
                 textContent = welcomeMessage timesheetService\<rparr>]\<rparr>"
proof -
  have a: "map_of SERVICES ''timesheet'' = Some timesheetService"
    by (simp add: SERVICES_def)
  have b: "emailInput activeSession = Some ''a@b.co''"
    by (simp add: activeSession_def)
  have c: "emailRegex_test (trim ''a@b.co'')"
    by (simp add: trim_examples emailRegex_accepts)
  show ?thesis
    using selectService_valid[OF a b c] a b c
    by (simp add: activeSession_def trim_examples)
qed

theorem selectService_history_counterexample:
  "map_of SERVICES ''timesheet'' = Some timesheetService \<and> validateEmail activeSession \<and>
   conversationHistory (selectService ''timesheet'' activeSession) = [] \<and>
   conversationHistory (selectService ''timesheet'' activeSession) \<noteq>
     [\<lparr>role = ''assistant'', content = JStr (welcomeMessage timesheetService)\<rparr>]"
  using validateEmail_activeSession
  by (simp add: selectService_def showError_def lookup_def clearMessages_def SERVICES_def
        addMessage_text_def activeSession_def trim_examples Let_def)

text \<open>
  C2, evaluated. With a valid address in the email input, \<^verbatim>\<open>selectService\<close> with a
  service type that the registry does not have (and does not inherit) reports the
  invalid-service error after it has overwritten the state: in the active timesheet
  session the selected service becomes the unknown type, the user email is replaced and
  the history is emptied.
\<close>

theorem selectService_unknown_overwrites:
  "lookup SERVICES ''bogus'' = Absent \<and>
   selectService ''bogus'' activeSession =
     activeSession\<lparr>selectedService := Some ''bogus'', userEmail := ''a@b.co'',
       conversationHistory := [], console := [ErrorLine ''Invalid service selected.'']\<rparr>"
  using validateEmail_activeSession
  by (simp add: selectService_def showError_def lookup_def SERVICES_def
        objectPrototypeKeys_def activeSession_def trim_examples Let_def)

theorem selectService_unknown_overwrites_witness:
  "selectedService (selectService ''bogus'' activeSession) \<noteq> selectedService activeSession \<and>
   conversationHistory (selectService ''bogus'' activeSession) \<noteq>
     conversationHistory activeSession \<and>
   userEmail (selectService ''bogus'' activeSession) \<noteq> userEmail activeSession"
  using selectService_unknown_overwrites by (simp add: activeSession_def)

text \<open>
  A service type that the registry only inherits from \<^verbatim>\<open>Object.prototype\<close> is not
  reported at all: the state is overwritten and the transcript emptied.
\<close>

lemma selectService_inherited_key:
  "lookup SERVICES ''constructor'' = Inherited \<and>
   selectService ''constructor'' activeSession =
     activeSession\<lparr>selectedService := Some ''constructor'', userEmail := ''a@b.co'',
       conversationHistory := [], messagesContainer := Some []\<rparr>"
  using validateEmail_activeSession
  by (simp add: selectService_def lookup_def SERVICES_def clearMessages_def
        objectPrototypeKeys_def activeSession_def trim_examples Let_def)

section \<open>The message pipeline: properties\<close>

lemma config_cases:
  "map_of API_CONFIG sid = Some cfg \<Longrightarrow>
     (sid = ''timesheet'' \<and> cfg = timesheetConfig) \<or>
     (sid = ''hr-policy'' \<and> cfg = hrPolicyConfig)"
  by (auto simp: API_CONFIG_def split: if_splits)

lemma config_examples:
  "map_of API_CONFIG ''timesheet'' = Some timesheetConfig"
  "map_of API_CONFIG ''hr-policy'' = Some hrPolicyConfig"
  by (simp_all add: API_CONFIG_def)

text \<open>
  In an active session with no request loading and a non-empty message, the first stretch
  of \<^verbatim>\<open>sendMessage\<close> clears the input, renders the user's message, sets the loading flag
  and issues a request.
\<close>

lemma sendMessage_begin_issues:
  assumes "messageInput s = Some v" and "trim v \<noteq> []" and "\<not> isLoading s" and "initialized s"
    and "selectedService s = Some sid" and "map_of API_CONFIG sid = Some cfg"
  shows "\<exists>req. sendMessage_begin s =
           (s\<lparr>messageInput := Some [],
              messagesContainer :=
                map_option
                  (\<lambda>divs. divs @ [\<lparr>className = ''message user'', textContent = trim v\<rparr>])
                  (messagesContainer s),
              isLoading := True\<rparr>,
            Some \<lparr>call_message = trim v, call_config = cfg, call_request = req\<rparr>)"
  using assms config_cases[OF assms(6)]
  by (cases "messagesContainer s")
     (auto simp: sendMessage_begin_def callAPI_begin_def lookup_def propertyKey_def
        addMessage_text_def showTyping_def)

lemma sendMessage_catch_eq:
  "sendMessage_catch error s =
     s\<lparr>messagesContainer :=
         map_option
           (\<lambda>divs. divs @ [\<lparr>className = ''message assistant'', textContent = apologyText\<rparr>])
           (messagesContainer s),
       isLoading := False,
       console := console s @ [ApiErrorLine error, ErrorLine (errorMsg error)]\<rparr>"
  by (cases "messagesContainer s")
     (simp_all add: sendMessage_catch_def showError_def showTyping_def addMessage_text_def
        apologyText_def)

lemma sendMessage_resume_failure:
  assumes "callAPI_try eng (call_config call) outcome (selectedService s) = Inl e"
  shows "sendMessage_resume eng call outcome s =
           sendMessage_catch (callAPI_catch e) (s\<lparr>console := console s @ [FetchErrorLine e]\<rparr>)"
  using assms by (simp add: sendMessage_resume_def callAPI_resume_def)

lemma sendMessage_resume_success:
  assumes "callAPI_try eng (call_config call) outcome (selectedService s) = Inr response"
    and "truthy response" and "ToString eng response = Inr shown"
  shows "sendMessage_resume eng call outcome s =
           s\<lparr>messagesContainer :=
               map_option
                 (\<lambda>divs. divs @ [\<lparr>className = ''message assistant'', textContent = shown\<rparr>])
                 (messagesContainer s),
             conversationHistory := conversationHistory s @
               [\<lparr>role = ''user'', content = JStr (call_message call)\<rparr>,
                \<lparr>role = ''assistant'', content = response\<rparr>],
             isLoading := False\<rparr>"
  using assms
  by (cases "messagesContainer s")
     (simp_all add: sendMessage_resume_def callAPI_resume_def addMessage_def showTyping_def)

text \<open>A whole call whose request fails, and a whole call whose request succeeds.\<close>

lemma sendMessage_failure:
  assumes "messageInput s = Some v" and "trim v \<noteq> []" and "\<not> isLoading s" and "initialized s"
    and "selectedService s = Some sid" and "map_of API_CONFIG sid = Some cfg"
    and "callAPI_try eng cfg outcome (Some sid) = Inl e"
  shows "sendMessage eng outcome s =
           s\<lparr>messageInput := Some [],
             messagesContainer :=
               map_option
                 (\<lambda>divs. divs @ [\<lparr>className = ''message user'', textContent = trim v\<rparr>,
                                 \<lparr>className = ''message assistant'', textContent = apologyText\<rparr>])
                 (messagesContainer s),
             isLoading := False,
             console := console s @
               [FetchErrorLine e, ApiErrorLine (callAPI_catch e),
                ErrorLine (errorMsg (callAPI_catch e))]\<rparr>"
proof -
  obtain req where b: "sendMessage_begin s =
           (s\<lparr>messageInput := Some [],
              messagesContainer :=
                map_option
                  (\<lambda>divs. divs @ [\<lparr>className = ''message user'', textContent = trim v\<rparr>])
                  (messagesContainer s),
              isLoading := True\<rparr>,
            Some \<lparr>call_message = trim v, call_config = cfg, call_request = req\<rparr>)"
    using sendMessage_begin_issues[OF assms(1-6)] by blast
  show ?thesis
    using assms(5,7)
    by (cases "messagesContainer s")
       (simp_all add: sendMessage_def b sendMessage_resume_failure[where e = e]
          sendMessage_catch_eq)
qed

lemma sendMessage_success:
  assumes "messageInput s = Some v" and "trim v \<noteq> []" and "\<not> isLoading s" and "initialized s"
    and "selectedService s = Some sid" and "map_of API_CONFIG sid = Some cfg"
    and "callAPI_try eng cfg outcome (Some sid) = Inr response"
    and "truthy response" and "ToString eng response = Inr shown"
  shows "sendMessage eng outcome s =
           s\<lparr>messageInput := Some [],
             messagesContainer :=
               map_option
                 (\<lambda>divs. divs @ [\<lparr>className = ''message user'', textContent = trim v\<rparr>,
                                 \<lparr>className = ''message assistant'', textContent = shown\<rparr>])
                 (messagesContainer s),
             conversationHistory := conversationHistory s @
               [\<lparr>role = ''user'', content = JStr (trim v)\<rparr>,
                \<lparr>role = ''assistant'', content = response\<rparr>],
             isLoading := False\<rparr>"
proof -
  obtain req where b: "sendMessage_begin s =
           (s\<lparr>messageInput := Some [],
              messagesContainer :=
                map_option
                  (\<lambda>divs. divs @ [\<lparr>className = ''message user'', textContent = trim v\<rparr>])
                  (messagesContainer s),
              isLoading := True\<rparr>,
            Some \<lparr>call_message = trim v, call_config = cfg, call_request = req\<rparr>)"
    using sendMessage_begin_issues[OF assms(1-6)] by blast
  show ?thesis
    using assms(5,7,8,9)
    by (cases "messagesContainer s")
       (simp_all add: sendMessage_def b
          sendMessage_resume_success[where response = response and shown = shown])
qed

lemma callAPI_try_not_ok:
  "\<not> response_ok status \<Longrightarrow>
     callAPI_try eng cfg (FetchResponse status body) selected = Inl (statusError cfg status)"
  by (simp add: callAPI_try_def)


lemma callAPI_try_success:
  "callAPI_try eng cfg outcome selected = Inr response \<Longrightarrow>
     \<exists>status data. outcome = FetchResponse status (Inr data) \<and> response_ok status"
  by (auto simp: callAPI_try_def split: fetch_outcome.splits if_splits sum.splits)

lemma callAPI_catch_statusError: "callAPI_catch (statusError cfg n) = statusError cfg n"
  by (simp add: callAPI_catch_def statusError_def Error_def)

lemma errorMsg_405:
  assumes "map_of API_CONFIG sid = Some cfg"
  shows "errorMsg (statusError cfg 405) =
           ''Method not allowed - please check the API endpoint configuration.''"
  using config_cases[OF assms]
  by (auto simp: errorMsg_def statusError_def Error_def startsWith_def timesheetConfig_def
        hrPolicyConfig_def)

lemma activeSession_facts:
  "messageInput activeSession = Some ''hi''" "\<not> isLoading activeSession"
  "initialized activeSession" "selectedService activeSession = Some ''timesheet''"
  by (simp_all add: activeSession_def)

lemma hrSession_facts:
  "messageInput hrSession = Some ''hi''" "\<not> isLoading hrSession"
  "initialized hrSession" "selectedService hrSession = Some ''hr-policy''"
  by (simp_all add: hrSession_def activeSession_def)

lemma trim_hi_nonempty: "trim ''hi'' \<noteq> []"
  by (simp add: trim_examples)

text \<open>
  C3, as the program has it. In every session with a service of the configuration
  selected, no request loading and a message that is not empty after trimming, when the
  response has status 405 \<^verbatim>\<open>sendMessage\<close> shows the method-not-allowed message, and
  the loading flag is off afterwards. The history is unchanged: neither the user's turn
  nor an assistant turn is recorded. On the page the message input is cleared and, when
  there is a messages container, the user's message is rendered, followed by the fixed
  apology as an assistant message. The error is also written to the console twice.
\<close>

theorem sendMessage_method_not_allowed:
  assumes "messageInput s = Some v" and "trim v \<noteq> []" and "\<not> isLoading s" and "initialized s"
    and "selectedService s = Some sid" and "map_of API_CONFIG sid = Some cfg"
  shows "sendMessage eng (FetchResponse 405 body) s =
           s\<lparr>messageInput := Some [],
             messagesContainer :=
               map_option
                 (\<lambda>divs. divs @ [\<lparr>className = ''message user'', textContent = trim v\<rparr>,
                                 \<lparr>className = ''message assistant'', textContent = apologyText\<rparr>])
                 (messagesContainer s),
             isLoading := False,
             console := console s @
               [FetchErrorLine (statusError cfg 405), ApiErrorLine (statusError cfg 405),
                ErrorLine ''Method not allowed - please check the API endpoint configuration.'']\<rparr>"
proof -
  have "callAPI_try eng cfg (FetchResponse 405 body) (Some sid) = Inl (statusError cfg 405)"
    by (simp add: callAPI_try_not_ok response_ok_def)
  from sendMessage_failure[OF assms this] show ?thesis
    by (simp add: callAPI_catch_statusError errorMsg_405[OF assms(6)])
qed

theorem sendMessage_method_not_allowed_witness:
  "conversationHistory (sendMessage sampleEngine (FetchResponse 405 (Inr JNull)) activeSession) =
     conversationHistory activeSession \<and>
   isLoading (sendMessage sampleEngine (FetchResponse 405 (Inr JNull)) activeSession) = False \<and>
   console (sendMessage sampleEngine (FetchResponse 405 (Inr JNull)) activeSession) =
     [FetchErrorLine (statusError timesheetConfig 405),
      ApiErrorLine (statusError timesheetConfig 405),
      ErrorLine ''Method not allowed - please check the API endpoint configuration.'']"
  using sendMessage_method_not_allowed[OF activeSession_facts(1) trim_hi_nonempty
      activeSession_facts(2,3,4) config_examples(1), of sampleEngine "Inr JNull"]
  by (simp add: activeSession_def)

theorem sendMessage_405_history_counterexample:
  "\<lparr>role = ''user'', content = JStr ''hi''\<rparr> \<notin>
     set (conversationHistory
            (sendMessage sampleEngine (FetchResponse 405 (Inr JNull)) activeSession)) \<and>
   messagesContainer (sendMessage sampleEngine (FetchResponse 405 (Inr JNull)) activeSession) =
     Some [\<lparr>className = ''message user'', textContent = ''q''\<rparr>,
           \<lparr>className = ''message assistant'', textContent = ''r''\<rparr>,
           \<lparr>className = ''message user'', textContent = ''hi''\<rparr>,
           \<lparr>className = ''message assistant'', textContent = apologyText\<rparr>]"
proof -
  have "callAPI_try sampleEngine timesheetConfig (FetchResponse 405 (Inr JNull))
          (Some ''timesheet'') = Inl (statusError timesheetConfig 405)"
    by (simp add: callAPI_try_not_ok response_ok_def)
  from sendMessage_failure[OF activeSession_facts(1) trim_hi_nonempty activeSession_facts(2,3,4)
      config_examples(1) this]
  show ?thesis
    by (simp add: activeSession_def trim_examples)
qed

text \<open>
  C7, as the program has it. In every session with the timesheet service selected, no
  request loading and the message \<^verbatim>\<open>hi\<close> in the input, when the response is successful
  with the body \<^verbatim>\<open>{"response": "ok"}\<close>, \<^verbatim>\<open>sendMessage\<close> appends to the history the
  user turn \<^verbatim>\<open>hi\<close> and then the assistant turn \<^verbatim>\<open>ok\<close>, and nothing else. The
  assistant turn is not returned: it is handed to the page, where it is rendered after
  the user's message, and the call itself resolves with \<^verbatim>\<open>undefined\<close>.
\<close>

theorem timesheet_round_trip:
  assumes "selectedService s = Some ''timesheet''" and "initialized s" and "\<not> isLoading s"
    and "messageInput s = Some v" and "trim v = ''hi''" and "response_ok status"
  shows "sendMessage eng (FetchResponse status (Inr (JObj [(''response'', JStr ''ok'')]))) s =
           s\<lparr>messageInput := Some [],
             messagesContainer :=
               map_option
                 (\<lambda>divs. divs @ [\<lparr>className = ''message user'', textContent = ''hi''\<rparr>,
                                 \<lparr>className = ''message assistant'', textContent = ''ok''\<rparr>])
                 (messagesContainer s),
             conversationHistory := conversationHistory s @
               [\<lparr>role = ''user'', content = JStr ''hi''\<rparr>,
                \<lparr>role = ''assistant'', content = JStr ''ok''\<rparr>],
             isLoading := False\<rparr> \<and>
         sendMessage_returns eng (FetchResponse status (Inr (JObj [(''response'', JStr ''ok'')]))) s =
           JUndefined"
proof
  have n: "trim v \<noteq> []"
    using assms(5) by simp
  have t: "callAPI_try eng timesheetConfig
             (FetchResponse status (Inr (JObj [(''response'', JStr ''ok'')])))
             (Some ''timesheet'') = Inr (JStr ''ok'')"
    using assms(6)
    by (simp add: callAPI_try_def responseText_def timesheetText_def getProperty_def nullish_def
          member_def or_else_def)
  from sendMessage_success[OF assms(4) n assms(3,2,1) config_examples(1) t, of "''ok''"]
  show "sendMessage eng (FetchResponse status (Inr (JObj [(''response'', JStr ''ok'')]))) s =
           s\<lparr>messageInput := Some [],
             messagesContainer :=
               map_option
                 (\<lambda>divs. divs @ [\<lparr>className = ''message user'', textContent = ''hi''\<rparr>,
                                 \<lparr>className = ''message assistant'', textContent = ''ok''\<rparr>])
                 (messagesContainer s),
             conversationHistory := conversationHistory s @
               [\<lparr>role = ''user'', content = JStr ''hi''\<rparr>,
                \<lparr>role = ''assistant'', content = JStr ''ok''\<rparr>],
             isLoading := False\<rparr>"
    using assms(5) by simp
next
  show "sendMessage_returns eng
          (FetchResponse status (Inr (JObj [(''response'', JStr ''ok'')]))) s = JUndefined"
    by (simp add: sendMessage_returns_def split: prod.splits option.splits)
qed

theorem timesheet_round_trip_witness:
  "response_ok 200 \<and>
   conversationHistory
     (sendMessage sampleEngine (FetchResponse 200 (Inr (JObj [(''response'', JStr ''ok'')])))
        activeSession) =
     [\<lparr>role = ''user'', content = JStr ''q''\<rparr>, \<lparr>role = ''assistant'', content = JStr ''r''\<rparr>,
      \<lparr>role = ''user'', content = JStr ''hi''\<rparr>, \<lparr>role = ''assistant'', content = JStr ''ok''\<rparr>] \<and>
   sendMessage_returns sampleEngine
     (FetchResponse 200 (Inr (JObj [(''response'', JStr ''ok'')]))) activeSession = JUndefined"
proof -
  have ok: "response_ok 200"
    by (simp add: response_ok_def)
  from timesheet_round_trip[OF activeSession_facts(4,3,2,1) trim_examples(3) ok, of sampleEngine]
  show ?thesis
    using ok by (simp add: activeSession_def)
qed

theorem timesheet_return_counterexample:
  "sendMessage_returns sampleEngine
     (FetchResponse 200 (Inr (JObj [(''response'', JStr ''ok'')]))) activeSession = JUndefined \<and>
   sendMessage_returns sampleEngine
     (FetchResponse 200 (Inr (JObj [(''response'', JStr ''ok'')]))) activeSession \<noteq>
     turnObject \<lparr>role = ''assistant'', content = JStr ''ok''\<rparr>"
  by (simp add: sendMessage_returns_def turnObject_def split: prod.splits option.splits)

text \<open>
  C8. In every session with the HR policy service selected, no request loading and a
  non-empty message, when the response is successful with the body
  \<^verbatim>\<open>{"answer":"A","sources":["doc1","doc2"]}\<close>, the assistant turn that \<^verbatim>\<open>sendMessage\<close>
  records and renders has as content the answer, two newlines, \<^verbatim>\<open>Sources: \<close> and the
  sources joined by a comma and a space.
\<close>

theorem hr_policy_sources_formatting:
  assumes "selectedService s = Some ''hr-policy''" and "initialized s" and "\<not> isLoading s"
    and "messageInput s = Some v" and "trim v \<noteq> []" and "response_ok status"
  shows "sendMessage eng
           (FetchResponse status
              (Inr (JObj [(''answer'', JStr ''A''),
                          (''sources'', JArr [JStr ''doc1'', JStr ''doc2''])]))) s =
           s\<lparr>messageInput := Some [],
             messagesContainer :=
               map_option
                 (\<lambda>divs. divs @
                    [\<lparr>className = ''message user'', textContent = trim v\<rparr>,
                     \<lparr>className = ''message assistant'',
                      textContent = ''A'' @ [CHR 0x0A, CHR 0x0A] @ ''Sources: doc1, doc2''\<rparr>])
                 (messagesContainer s),
             conversationHistory := conversationHistory s @
               [\<lparr>role = ''user'', content = JStr (trim v)\<rparr>,
                \<lparr>role = ''assistant'',
                 content = JStr (''A'' @ [CHR 0x0A, CHR 0x0A] @ ''Sources: doc1, doc2'')\<rparr>],
             isLoading := False\<rparr>"
proof -
  have t: "callAPI_try eng hrPolicyConfig
             (FetchResponse status
                (Inr (JObj [(''answer'', JStr ''A''),
                            (''sources'', JArr [JStr ''doc1'', JStr ''doc2''])])))
             (Some ''hr-policy'') =
           Inr (JStr (''A'' @ [CHR 0x0A, CHR 0x0A] @ ''Sources: doc1, doc2''))"
    using assms(6)
    by (simp add: callAPI_try_def responseText_def hrPolicyText_def getProperty_def nullish_def
          member_def or_else_def appendSources_def)
  from sendMessage_success[OF assms(4,5,3,2,1) config_examples(2) t,
      of "''A'' @ [CHR 0x0A, CHR 0x0A] @ ''Sources: doc1, doc2''"]
  show ?thesis
    by simp
qed

theorem hr_policy_sources_formatting_witness:
  "response_ok 200 \<and>
   conversationHistory
     (sendMessage sampleEngine
        (FetchResponse 200
           (Inr (JObj [(''answer'', JStr ''A''),
                       (''sources'', JArr [JStr ''doc1'', JStr ''doc2''])]))) hrSession) =
     [\<lparr>role = ''user'', content = JStr ''q''\<rparr>, \<lparr>role = ''assistant'', content = JStr ''r''\<rparr>,
      \<lparr>role = ''user'', content = JStr ''hi''\<rparr>,
      \<lparr>role = ''assistant'',
       content = JStr (''A'' @ [CHR 0x0A, CHR 0x0A] @ ''Sources: doc1, doc2'')\<rparr>]"
proof -
  have ok: "response_ok 200"
    by (simp add: response_ok_def)
  from hr_policy_sources_formatting[OF hrSession_facts(4,3,2,1) trim_hi_nonempty ok,
      of sampleEngine]
  show ?thesis
    using ok by (simp add: hrSession_def activeSession_def trim_examples)
qed

text \<open>
  C4, evaluated. For the HR policy service and the successful response body
  \<^verbatim>\<open>{"sources":["doc1"]}\<close>, which has a non-empty list of sources and no answer, response
  or message, the text of the response is not the fallback string: the sources are
  appended to the missing answer, and the assistant turn reads \<^verbatim>\<open>undefined\<close>, two
  newlines, \<^verbatim>\<open>Sources: doc1\<close>.
\<close>

theorem hr_policy_sources_without_answer:
  "responseText eng (Some ''hr-policy'') (JObj [(''sources'', JArr [JStr ''doc1''])]) =
     Inr (JStr (''undefined'' @ [CHR 0x0A, CHR 0x0A] @ ''Sources: doc1'')) \<and>
   conversationHistory
     (sendMessage eng (FetchResponse 200 (Inr (JObj [(''sources'', JArr [JStr ''doc1''])])))
        hrSession) =
     conversationHistory hrSession @
       [\<lparr>role = ''user'', content = JStr ''hi''\<rparr>,
        \<lparr>role = ''assistant'',
         content = JStr (''undefined'' @ [CHR 0x0A, CHR 0x0A] @ ''Sources: doc1'')\<rparr>]"
proof -
  have r: "responseText eng (Some ''hr-policy'') (JObj [(''sources'', JArr [JStr ''doc1''])]) =
             Inr (JStr (''undefined'' @ [CHR 0x0A, CHR 0x0A] @ ''Sources: doc1''))"
    by (simp add: responseText_def hrPolicyText_def getProperty_def nullish_def member_def
          or_else_def appendSources_def)
  have t: "callAPI_try eng hrPolicyConfig
             (FetchResponse 200 (Inr (JObj [(''sources'', JArr [JStr ''doc1''])])))
             (Some ''hr-policy'') =
           Inr (JStr (''undefined'' @ [CHR 0x0A, CHR 0x0A] @ ''Sources: doc1''))"
    by (simp add: callAPI_try_def response_ok_def r)
  from sendMessage_success[OF hrSession_facts(1) trim_hi_nonempty hrSession_facts(2,3,4)
      config_examples(2) t, of "''undefined'' @ [CHR 0x0A, CHR 0x0A] @ ''Sources: doc1''"]
  show ?thesis
    using r by (simp add: trim_examples)
qed

theorem hr_policy_sources_without_answer_witness:
  "content (last (conversationHistory
     (sendMessage sampleEngine
        (FetchResponse 200 (Inr (JObj [(''sources'', JArr [JStr ''doc1''])]))) hrSession))) \<noteq>
     JStr fallbackText"
  using hr_policy_sources_without_answer[of sampleEngine]
  by (simp add: fallbackText_def)











section \<open>Executions: properties\<close>

lemma paired_append: "paired xs \<Longrightarrow> paired ys \<Longrightarrow> paired (xs @ ys)"
  by (induction xs rule: paired.induct) auto

lemma paired_even: "paired xs \<Longrightarrow> even (length xs)"
  by (induction xs rule: paired.induct) auto

text \<open>What each operation does to the history.\<close>

lemma history_catch: "conversationHistory (sendMessage_catch e s) = conversationHistory s"
  by (simp add: sendMessage_catch_eq)

lemma history_begin: "conversationHistory (fst (sendMessage_begin s)) = conversationHistory s"
  by (simp add: sendMessage_begin_def showTyping_def addMessage_text_def Let_def history_catch
      split: option.splits sum.splits)

lemma history_addMessage:
  "addMessage eng r c s = Inr s' \<Longrightarrow> conversationHistory s' = conversationHistory s"
  by (auto simp: addMessage_def split: option.splits if_splits sum.splits)

lemma history_resume:
  "conversationHistory (sendMessage_resume eng call outcome s) = conversationHistory s \<or>
   (\<exists>response. callAPI_try eng (call_config call) outcome (selectedService s) = Inr response \<and>
      conversationHistory (sendMessage_resume eng call outcome s) =
        conversationHistory s @
          [\<lparr>role = ''user'', content = JStr (call_message call)\<rparr>,
           \<lparr>role = ''assistant'', content = response\<rparr>])"
  by (auto simp: sendMessage_resume_def callAPI_resume_def showTyping_def history_catch
      dest: history_addMessage split: sum.splits)

lemma history_select:
  "conversationHistory (selectService k s) =
     (if validateEmail s then [] else conversationHistory s)"
  by (auto simp: selectService_def showError_def clearMessages_def addMessage_text_def
        validateEmail_def emailRegex_test_def Let_def
      split: option.splits property.splits)

lemma history_reset: "conversationHistory (resetToWelcome s) = []"
  by (simp add: resetToWelcome_def showTyping_def)

lemma paired_step:
  assumes "paired (conversationHistory (app_state x))"
  shows "paired (conversationHistory (app_state (step eng ev x)))"
proof (cases ev)
  case (Settle i outcome)
  show ?thesis
  proof (cases "i < length (inflight x)")
    case True
    from history_resume[of eng "snd (inflight x ! i)" outcome "app_state x"] assms
    show ?thesis
      using Settle True by (auto simp: paired_append)
  next
    case False
    then show ?thesis
      using Settle assms by simp
  qed
next
  case SendMessage
  have "conversationHistory (app_state (step eng SendMessage x)) =
        conversationHistory (fst (sendMessage_begin (app_state x)))"
    by (cases "sendMessage_begin (app_state x)") (simp split: option.splits)
  then show ?thesis
    using SendMessage assms by (simp add: history_begin)
qed (use assms in \<open>simp_all add: history_select history_reset showError_def\<close>)

lemma paired_run:
  "paired (conversationHistory (app_state x)) \<Longrightarrow>
   paired (conversationHistory (app_state (run eng events x)))"
  unfolding run_def
  by (induction events arbitrary: x) (simp_all add: paired_step)

lemma paired_startup: "paired (conversationHistory (app_state (startup e m c)))"
  by (simp add: startup_def history_reset)

text \<open>The loading flag and the requests in flight.\<close>

lemma loading_select: "isLoading (selectService k s) = isLoading s"
  by (simp add: selectService_def showError_def clearMessages_def addMessage_text_def Let_def
      split: option.splits property.splits)

lemma begin_guard: "isLoading s \<Longrightarrow> sendMessage_begin s = (s, None)"
  by (simp add: sendMessage_begin_def split: option.splits)

lemma begin_issue: "sendMessage_begin s = (s', Some call) \<Longrightarrow> \<not> isLoading s \<and> isLoading s'"
  by (auto simp: sendMessage_begin_def showTyping_def addMessage_text_def Let_def
      split: option.splits if_splits sum.splits)

lemma oneInFlight_step:
  assumes "oneInFlight x" and "ev \<noteq> ResetToWelcome"
  shows "oneInFlight (step eng ev x)"
proof (cases ev)
  case SendMessage
  obtain s' r where b: "sendMessage_begin (app_state x) = (s', r)"
    by (cases "sendMessage_begin (app_state x)")
  show ?thesis
  proof (cases r)
    case None
    show ?thesis
    proof (cases "isLoading (app_state x)")
      case True
      then show ?thesis
        using assms SendMessage b None begin_guard[OF True] by (simp add: oneInFlight_def)
    next
      case False
      then show ?thesis
        using assms SendMessage b None by (simp add: oneInFlight_def)
    qed
  next
    case (Some call)
    from begin_issue[of "app_state x" s' call] b Some
    have "\<not> isLoading (app_state x)" and "isLoading s'"
      by simp_all
    then show ?thesis
      using assms SendMessage b Some by (simp add: oneInFlight_def)
  qed
next
  case (Settle i outcome)
  then show ?thesis
    using assms by (cases "inflight x") (auto simp: oneInFlight_def)
qed (use assms in \<open>simp_all add: oneInFlight_def loading_select showError_def\<close>)

lemma oneInFlight_run:
  "oneInFlight x \<Longrightarrow> ResetToWelcome \<notin> set events \<Longrightarrow> oneInFlight (run eng events x)"
  unfolding run_def
  by (induction events arbitrary: x) (auto simp: oneInFlight_step)

lemma oneInFlight_startup: "oneInFlight (startup e m c)"
  by (simp add: oneInFlight_def startup_def)

text \<open>The example executions, evaluated.\<close>

lemma trim_numbers: "trim ''one'' = ''one''" "trim ''two'' = ''two''" "trim ''three'' = ''three''"
  by (simp_all add: trim_def isWhiteSpace_def)

lemmas evaluate_execution =
  run_def startup_def resetToWelcome_def showTyping_def
  selectService_def validateEmail_def trim_examples trim_numbers emailRegex_accepts
  lookup_def SERVICES_def clearMessages_def addMessage_text_def Let_def
  sendMessage_begin_def callAPI_begin_def propertyKey_def API_CONFIG_def
  sendMessage_resume_def callAPI_resume_def callAPI_try_def response_ok_def
  responseText_def timesheetText_def getProperty_def nullish_def okBody_def member_def
  or_else_def addMessage_def timesheetService_def

lemma staleEvents_inflight:
  "map fst (inflight (run sampleEngine staleEvents (startup True True True))) = [3, 3]"
  by (simp add: staleEvents_def evaluate_execution numeral_3_eq_3)

lemma staleEvents_history:
  "conversationHistory (app_state (run sampleEngine staleEvents (startup True True True))) =
     [\<lparr>role = ''user'', content = JStr ''one''\<rparr>,
      \<lparr>role = ''assistant'', content = JStr ''ok''\<rparr>]"
  by (simp add: staleEvents_def evaluate_execution)

lemma lateAnswerEvents_history:
  "conversationHistory
     (app_state (run sampleEngine (lateAnswerEvents @ [SelectService ''timesheet''])
        (startup True True True))) =
     [\<lparr>role = ''user'', content = JStr ''one''\<rparr>,
      \<lparr>role = ''assistant'', content = JStr fallbackText\<rparr>]"
  by (simp add: lateAnswerEvents_def evaluate_execution emailRegex_rejects showError_def
        fallbackText_def)

lemma idleResetEvents_idle: "resetsWhenIdle sampleEngine idleResetEvents (startup True True True)"
  by (simp add: idleResetEvents_def evaluate_execution)

lemma idleResetEvents_inflight:
  "length (inflight (run sampleEngine idleResetEvents (startup True True True))) = 1"
  by (simp add: idleResetEvents_def evaluate_execution)

text \<open>The history after the resumed stretch of \<^verbatim>\<open>sendMessage\<close>, in every case.\<close>

lemma history_resume_cases:
  "conversationHistory (sendMessage_resume eng call outcome s) =
     (case callAPI_try eng (call_config call) outcome (selectedService s) of
        Inl err \<Rightarrow> conversationHistory s
      | Inr response \<Rightarrow>
          (case addMessage eng ''assistant'' response s of
             Inl err \<Rightarrow> conversationHistory s
           | Inr s' \<Rightarrow>
               conversationHistory s @
                 [\<lparr>role = ''user'', content = JStr (call_message call)\<rparr>,
                  \<lparr>role = ''assistant'', content = response\<rparr>]))"
  by (auto simp: sendMessage_resume_def callAPI_resume_def showTyping_def history_catch
      dest: history_addMessage split: sum.splits)

lemma oneInFlight_step_idle:
  assumes "oneInFlight x" and "ev = ResetToWelcome \<longrightarrow> inflight x = []"
  shows "oneInFlight (step eng ev x)"
proof (cases "ev = ResetToWelcome")
  case True
  then show ?thesis
    using assms by (simp add: oneInFlight_def)
next
  case False
  then show ?thesis
    by (rule oneInFlight_step[OF assms(1)])
qed

lemma oneInFlight_run_idle:
  "oneInFlight x \<Longrightarrow> resetsWhenIdle eng events x \<Longrightarrow> oneInFlight (run eng events x)"
  unfolding run_def
  by (induction events arbitrary: x) (simp_all add: oneInFlight_step_idle)

text \<open>
  C10, as the program has it. In every state that an execution reaches from the start of
  the page, whatever the events (edits of the inputs, service selections, sends, settled
  requests, resets, going offline), the history consists of consecutive (user, assistant)
  pairs and has even length. The first stretch of \<^verbatim>\<open>sendMessage\<close>, up to the request,
  leaves the history as it is, also when \<^verbatim>\<open>callAPI\<close> throws before the request. The
  resumed stretch leaves the history as it is when the call fails, be it in
  \<^verbatim>\<open>callAPI\<close> or when the answer is rendered; when the call succeeds it appends the user
  turn and the assistant turn together, in this order; and \<^verbatim>\<open>callAPI\<close> succeeds only
  on a response with a successful status and a parsed body. A whole call changes the
  history as its two stretches do. \<^verbatim>\<open>resetToWelcome\<close> sets the
  history to empty. \<^verbatim>\<open>selectService\<close> sets it to empty when the email check passes, and
  leaves it as it is when the check fails.
\<close>

theorem history_paired:
  "paired (conversationHistory (app_state (run eng events (startup e m c)))) \<and>
   even (length (conversationHistory (app_state (run eng events (startup e m c))))) \<and>
   conversationHistory (fst (sendMessage_begin s)) = conversationHistory s \<and>
   conversationHistory (sendMessage_resume eng call outcome s) =
     (case callAPI_try eng (call_config call) outcome (selectedService s) of
        Inl err \<Rightarrow> conversationHistory s
      | Inr response \<Rightarrow>
          (case addMessage eng ''assistant'' response s of
             Inl err \<Rightarrow> conversationHistory s
           | Inr s' \<Rightarrow>
               conversationHistory s @
                 [\<lparr>role = ''user'', content = JStr (call_message call)\<rparr>,
                  \<lparr>role = ''assistant'', content = response\<rparr>])) \<and>
   conversationHistory (sendMessage eng outcome s) =
     (case sendMessage_begin s of
        (s1, None) \<Rightarrow> conversationHistory s
      | (s1, Some pending) \<Rightarrow> conversationHistory (sendMessage_resume eng pending outcome s1)) \<and>
   (\<forall>response. callAPI_try eng (call_config call) outcome (selectedService s) = Inr response \<longrightarrow>
      (\<exists>status data. outcome = FetchResponse status (Inr data) \<and> response_ok status)) \<and>
   conversationHistory (selectService serviceType s) =
     (if validateEmail s then [] else conversationHistory s) \<and>
   conversationHistory (resetToWelcome s) = []"
proof -
  have p: "paired (conversationHistory (app_state (run eng events (startup e m c))))"
    by (rule paired_run[OF paired_startup])
  have t: "\<forall>response.
      callAPI_try eng (call_config call) outcome (selectedService s) = Inr response \<longrightarrow>
      (\<exists>status data. outcome = FetchResponse status (Inr data) \<and> response_ok status)"
    using callAPI_try_success by blast
  have w: "conversationHistory (sendMessage eng outcome s) =
     (case sendMessage_begin s of
        (s1, None) \<Rightarrow> conversationHistory s
      | (s1, Some pending) \<Rightarrow> conversationHistory (sendMessage_resume eng pending outcome s1))"
    using history_begin[of s]
    by (cases "sendMessage_begin s") (simp add: sendMessage_def split: option.splits)
  show ?thesis
    using p paired_even[OF p] t w history_resume_cases[of eng call outcome s]
    by (simp add: history_begin history_select history_reset)
qed

theorem history_paired_witness:
  "paired (conversationHistory (app_state (run sampleEngine staleEvents (startup True True True)))) \<and>
   conversationHistory (app_state (run sampleEngine staleEvents (startup True True True))) =
     [\<lparr>role = ''user'', content = JStr ''one''\<rparr>,
      \<lparr>role = ''assistant'', content = JStr ''ok''\<rparr>]"
proof -
  have "paired (conversationHistory (app_state (run sampleEngine staleEvents (startup True True True))))"
    using history_paired[of sampleEngine staleEvents True True True] by blast
  then show ?thesis
    by (simp add: staleEvents_history)
qed

theorem selectService_keeps_history_counterexample:
  "conversationHistory
     (app_state (run sampleEngine (lateAnswerEvents @ [SelectService ''timesheet''])
        (startup True True True))) =
     [\<lparr>role = ''user'', content = JStr ''one''\<rparr>,
      \<lparr>role = ''assistant'', content = JStr fallbackText\<rparr>] \<and>
   conversationHistory
     (app_state (run sampleEngine (lateAnswerEvents @ [SelectService ''timesheet''])
        (startup True True True))) \<noteq> []"
  by (simp add: lateAnswerEvents_history)

text \<open>
  C6, as the program has it. While the loading flag is set, \<^verbatim>\<open>sendMessage\<close> returns at
  once: the state is unchanged, nothing is reported and no request is issued. In every
  execution from the start of the page in which no reset is made while a request is in
  flight, at most one request is in flight, and the loading flag is set while one is.
\<close>

theorem loading_guard:
  "(isLoading s \<longrightarrow> sendMessage_begin s = (s, None) \<and> sendMessage eng outcome s = s) \<and>
   (resetsWhenIdle eng events (startup e m c) \<longrightarrow>
      length (inflight (run eng events (startup e m c))) \<le> 1 \<and>
      (inflight (run eng events (startup e m c)) = [] \<or>
       isLoading (app_state (run eng events (startup e m c)))))"
proof (intro conjI impI)
  assume l: "isLoading s"
  show "sendMessage_begin s = (s, None)"
    by (rule begin_guard[OF l])
  then show "sendMessage eng outcome s = s"
    by (simp add: sendMessage_def)
next
  assume "resetsWhenIdle eng events (startup e m c)"
  from oneInFlight_run_idle[OF oneInFlight_startup this]
  have o: "oneInFlight (run eng events (startup e m c))" .
  then show "length (inflight (run eng events (startup e m c))) \<le> 1"
    by (simp add: oneInFlight_def)
  from o show "inflight (run eng events (startup e m c)) = [] \<or>
       isLoading (app_state (run eng events (startup e m c)))"
    by (simp add: oneInFlight_def)
qed

theorem loading_guard_witness:
  "isLoading (activeSession\<lparr>isLoading := True\<rparr>) \<and>
   sendMessage_begin (activeSession\<lparr>isLoading := True\<rparr>) = (activeSession\<lparr>isLoading := True\<rparr>, None) \<and>
   resetsWhenIdle sampleEngine idleResetEvents (startup True True True) \<and>
   length (inflight (run sampleEngine idleResetEvents (startup True True True))) = 1 \<and>
   isLoading (app_state (run sampleEngine idleResetEvents (startup True True True)))"
proof -
  have a: "isLoading (activeSession\<lparr>isLoading := True\<rparr>)"
    by simp
  have n: "inflight (run sampleEngine idleResetEvents (startup True True True)) \<noteq> []"
    using idleResetEvents_inflight
    by (cases "inflight (run sampleEngine idleResetEvents (startup True True True))") simp_all
  from loading_guard[of "activeSession\<lparr>isLoading := True\<rparr>" sampleEngine _ idleResetEvents
      True True True]
  show ?thesis
    using a n idleResetEvents_idle idleResetEvents_inflight by auto
qed

theorem single_flight_counterexample:
  "map fst (inflight (run sampleEngine staleEvents (startup True True True))) = [3, 3] \<and>
   \<not> length (inflight (run sampleEngine staleEvents (startup True True True))) \<le> 1"
proof -
  have "length (map fst (inflight (run sampleEngine staleEvents (startup True True True)))) = 2"
    by (simp only: staleEvents_inflight) simp
  then have "length (inflight (run sampleEngine staleEvents (startup True True True))) = 2"
    by simp
  then have "\<not> length (inflight (run sampleEngine staleEvents (startup True True True))) \<le> 1"
    by simp
  with staleEvents_inflight show ?thesis
    by blast
qed

end
